theory Spec2Isabelle
  imports Complex_Main
begin

section \<open>The browser values read by the tooltip\<close>

text \<open>
  Pixel quantities (pointer coordinates, scroll offsets, viewport and element sizes) are
  JavaScript numbers; they are modelled as mathematical integers. The pointer event is the
  object whose \<^verbatim>\<open>clientX\<close> and \<^verbatim>\<open>clientY\<close> are read (the mouse event, or the
  first touch point on a touch device).
\<close>

record pointer_event =
  clientX :: int
  clientY :: int

text \<open>
  The values \<^verbatim>\<open>calculateTooltipPosition\<close> reads from \<^verbatim>\<open>window\<close>,
  \<^verbatim>\<open>document.documentElement\<close> and the tooltip element's layout box.
\<close>

record browser =
  pageXOffset :: int
  pageYOffset :: int
  doc_scrollLeft :: int
  doc_scrollTop :: int
  innerWidth :: int
  innerHeight :: int
  offsetWidth :: int
  offsetHeight :: int

record position =
  left_px :: int
  top_px :: int

text \<open>JavaScript \<^verbatim>\<open>a || b\<close> on numbers: \<^verbatim>\<open>a\<close> when it is truthy (not zero), else \<^verbatim>\<open>b\<close>.\<close>

definition num_or :: "int \<Rightarrow> int \<Rightarrow> int" where
  "num_or a b = (if a \<noteq> 0 then a else b)"

section \<open>Tooltip.calculateTooltipPosition\<close>

definition calculateTooltipPosition :: "browser \<Rightarrow> pointer_event \<Rightarrow> position" where
  "calculateTooltipPosition win event =
    (let scrollLeft = num_or (pageXOffset win) (doc_scrollLeft win);
         scrollTop = num_or (pageYOffset win) (doc_scrollTop win);
         viewportWidth = innerWidth win;
         viewportHeight = innerHeight win;
         tooltipWidth = offsetWidth win;
         tooltipHeight = offsetHeight win;
         position = \<lparr>left_px = clientX event + scrollLeft, top_px = clientY event + scrollTop\<rparr>;
         position = (if clientX event + tooltipWidth > viewportWidth
                     then position\<lparr>left_px := clientX event - tooltipWidth + scrollLeft\<rparr>
                     else position);
         position = (if clientY event + tooltipHeight > viewportHeight
                     then position\<lparr>top_px := clientY event - tooltipHeight + scrollTop\<rparr>
                     else position);
         position = (if left_px position < scrollLeft
                     then position\<lparr>left_px := scrollLeft\<rparr>
                     else position);
         position = (if top_px position < scrollTop
                     then position\<lparr>top_px := scrollTop\<rparr>
                     else position)
     in position)"

text \<open>The window of the scenario in the specification: 1024 by 768, not scrolled, with a
  tooltip box of 200 by 100.\<close>

definition scenario_window :: browser where
  "scenario_window =
    \<lparr>pageXOffset = 0, pageYOffset = 0, doc_scrollLeft = 0, doc_scrollTop = 0,
     innerWidth = 1024, innerHeight = 768, offsetWidth = 200, offsetHeight = 100\<rparr>"

section \<open>The tooltip instance and its page\<close>

datatype js_error = TypeError

text \<open>How a method call ends: it returns, or an exception leaves it. The state reached at
  that moment is kept beside it, since what was assigned before a throw stays assigned.\<close>

datatype completion = Normal | Thrown js_error

text \<open>The nodes of one tooltip's subtree: the root, the background and content containers,
  the title and description nodes, and the cells created by \<^verbatim>\<open>#layout\<close>.\<close>

datatype elem = TooltipEl | BgEl | ContentEl | TitleEl | DescEl | CellEl nat

text \<open>
  The target element as the document has it when the constructor runs: which of the
  queried descendants exist, and the \<^verbatim>\<open>data-rows\<close> and \<^verbatim>\<open>data-cols\<close> attributes
  (\<open>None\<close> when the attribute is absent, so that \<^verbatim>\<open>dataset.rows\<close> is \<^verbatim>\<open>undefined\<close>).
\<close>

record target =
  has_bg :: bool
  has_content :: bool
  has_title :: bool
  has_desc :: bool
  dataset_rows :: "string option"
  dataset_cols :: "string option"

text \<open>The fields of class \<^verbatim>\<open>Tooltip\<close>; \<open>None\<close> is \<^verbatim>\<open>null\<close> (or \<^verbatim>\<open>undefined\<close> for
  \<^verbatim>\<open>tl\<close>). A timeline is known by the number the engine gave it.\<close>

record tooltip =
  DOM_el :: elem
  DOM_bg :: "elem option"
  DOM_content :: "elem option"
  DOM_contentTitle :: "elem option"
  DOM_contentDescription :: "elem option"
  DOM_cells :: "elem list option"
  rows :: int
  cols :: int
  isOpen :: bool
  tl :: "nat option"

text \<open>Values handed to the animation engine. \<open>DistanceDelay\<close> stands for the per-cell delay
  of the first effect, a floating-point function of the cell's and the pointer's position.\<close>

datatype jsval =
  Num rat
  | Str string
  | RandomFn rat rat
  | DistanceDelay
  | Obj "(string \<times> jsval) list"

type_synonym vars = "(string \<times> jsval) list"

datatype callback = OnStart | OnComplete | GlitchTitle | GlitchDescription

text \<open>The calls made to the animation engine, in order: \<^verbatim>\<open>gsap.timeline\<close> with its default
  duration and ease, \<^verbatim>\<open>kill\<close>, \<^verbatim>\<open>fromTo\<close>, \<^verbatim>\<open>to\<close> and \<^verbatim>\<open>add\<close> on a timeline.\<close>

datatype gsap_call =
  Timeline nat rat string
  | Kill nat
  | FromTo nat "elem option list" vars vars rat
  | To nat "elem option list" vars rat
  | Add nat callback rat

text \<open>What the code writes outside the instance: inline styles and custom properties of the
  root, the background's markup and filter, the classes toggled by the timeline callbacks,
  the console and the animation engine.\<close>

record page =
  style_left :: "int option"
  style_top :: "int option"
  tt_columns :: "int option"
  tt_rows :: "int option"
  bg_innerHTML :: string
  bg_filter :: string
  el_zIndex :: "int option"
  class_show :: bool
  title_glitch :: bool
  desc_glitch :: bool
  console :: "string list"
  engine :: "gsap_call list"

definition initial_page :: page where
  "initial_page =
    \<lparr>style_left = None, style_top = None, tt_columns = None, tt_rows = None,
     bg_innerHTML = [], bg_filter = [], el_zIndex = None, class_show = False,
     title_glitch = False, desc_glitch = False, console = [], engine = []\<rparr>"

subsection \<open>parseInt with radix 10, and the default\<close>

text \<open>A character of an attribute value is one code unit below 256. The white space
  \<^verbatim>\<open>parseInt\<close> skips is then TAB, LF, VT, FF, CR, the space and the no-break space; the
  white space beyond U+00FF does not occur in such a string. The parsed value is kept exact,
  where a JavaScript number rounds above \<open>2^53\<close>.\<close>

definition is_space :: "char \<Rightarrow> bool" where
  "is_space c =
    (c \<in> set [CHR 0x09, CHR 0x0A, CHR 0x0B, CHR 0x0C, CHR 0x0D, CHR '' '', CHR 0xA0])"

definition is_digit :: "char \<Rightarrow> bool" where
  "is_digit c = (c \<in> set ''0123456789'')"

definition digit_val :: "char \<Rightarrow> int" where
  "digit_val c = of_char c - 48"

text \<open>\<^verbatim>\<open>String(undefined)\<close> is the text \<^verbatim>\<open>undefined\<close>.\<close>

definition to_string :: "string option \<Rightarrow> string" where
  "to_string v = (case v of None \<Rightarrow> ''undefined'' | Some s \<Rightarrow> s)"

text \<open>\<^verbatim>\<open>parseInt(v, 10)\<close>: leading white space is skipped, a sign is read, then the longest
  run of decimal digits; \<open>None\<close> is \<^verbatim>\<open>NaN\<close>, the result when there is no digit.\<close>

definition parseInt :: "string option \<Rightarrow> int option" where
  "parseInt v =
    (let s = dropWhile is_space (to_string v);
         sign = (case s of c # _ \<Rightarrow> if c = CHR ''-'' then - 1 else 1 | [] \<Rightarrow> 1);
         s = (case s of c # r \<Rightarrow> if c = CHR ''-'' \<or> c = CHR ''+'' then r else s | [] \<Rightarrow> s);
         ds = takeWhile is_digit s
     in if ds = [] then None else Some (sign * foldl (\<lambda>a d. 10 * a + digit_val d) 0 ds))"

text \<open>\<^verbatim>\<open>n || 4\<close>: \<^verbatim>\<open>NaN\<close> and \<^verbatim>\<open>0\<close> are falsy.\<close>

definition or_default :: "int option \<Rightarrow> int \<Rightarrow> int" where
  "or_default n d = (case n of None \<Rightarrow> d | Some k \<Rightarrow> if k \<noteq> 0 then k else d)"

subsection \<open>Tooltip.#layout\<close>

function layout_cols :: "int \<Rightarrow> int \<Rightarrow> string \<Rightarrow> string" where
  "layout_cols col c strHTML =
    (if col < c then layout_cols (col + 1) c (strHTML @ ''<div></div>'') else strHTML)"
  by pat_completeness auto
termination
  by (relation "measure (\<lambda>(col, c, strHTML). nat (c - col))") auto

function layout_rows :: "int \<Rightarrow> int \<Rightarrow> int \<Rightarrow> string \<Rightarrow> string" where
  "layout_rows row r c strHTML =
    (if row < r then layout_rows (row + 1) r c (layout_cols 0 c strHTML) else strHTML)"
  by pat_completeness auto
termination
  by (relation "measure (\<lambda>(row, r, c, strHTML). nat (r - row))") auto

text \<open>The children the browser builds from markup that is a run of empty \<^verbatim>\<open>div\<close> elements:
  their number. \<^verbatim>\<open>querySelectorAll('div')\<close> on the background then returns them in order.\<close>

function count_divs :: "string \<Rightarrow> nat" where
  "count_divs s =
    (if take 11 s = ''<div></div>'' then Suc (count_divs (drop 11 s)) else 0)"
  by pat_completeness auto
termination
proof (relation "measure length")
  show "wf (measure length)" by simp
next
  fix s :: string
  assume "take 11 s = ''<div></div>''"
  then have "length (take 11 s) = 11" by simp
  then have "11 \<le> length s" by simp
  then show "(drop 11 s, s) \<in> measure length" by simp
qed

definition querySelectorAll_div :: "string \<Rightarrow> elem list" where
  "querySelectorAll_div html = map CellEl [0 ..< count_divs html]"

definition layout :: "tooltip \<times> page \<Rightarrow> js_error + tooltip \<times> page" where
  "layout = (\<lambda>(t, p).
    let strHTML = layout_rows 0 (rows t) (cols t) []
    in case DOM_bg t of
         None \<Rightarrow> Inl TypeError
       | Some bg \<Rightarrow>
           let p = p\<lparr>bg_innerHTML := strHTML\<rparr>;
               p = p\<lparr>tt_columns := Some (cols t)\<rparr>;
               p = p\<lparr>tt_rows := Some (rows t)\<rparr>
           in Inr (t\<lparr>DOM_cells := Some (querySelectorAll_div (bg_innerHTML p))\<rparr>, p))"

subsection \<open>The constructor\<close>

definition querySelector :: "bool \<Rightarrow> elem \<Rightarrow> elem option" where
  "querySelector present e = (if present then Some e else None)"

definition constructor :: "target \<Rightarrow> page \<Rightarrow> js_error + tooltip \<times> page" where
  "constructor DOM_el_arg p =
    (let bg = querySelector (has_bg DOM_el_arg) BgEl;
         content = querySelector (has_content DOM_el_arg) ContentEl
     in case content of
          None \<Rightarrow> Inl TypeError
        | Some content_el \<Rightarrow>
            let contentTitle = querySelector (has_title DOM_el_arg) TitleEl;
                contentDescription = querySelector (has_desc DOM_el_arg) DescEl;
                r = or_default (parseInt (dataset_rows DOM_el_arg)) 4;
                c = or_default (parseInt (dataset_cols DOM_el_arg)) 4
            in layout
                 (\<lparr>DOM_el = TooltipEl, DOM_bg = bg, DOM_content = content,
                   DOM_contentTitle = contentTitle, DOM_contentDescription = contentDescription,
                   DOM_cells = None, rows = r, cols = c, isOpen = False, tl = None\<rparr>, p))"

subsection \<open>Tooltip.updatePosition\<close>

text \<open>The inline styles \<^verbatim>\<open>left\<close> and \<^verbatim>\<open>top\<close> are kept as their number of pixels.\<close>

definition updatePosition :: "browser \<Rightarrow> pointer_event \<Rightarrow> tooltip \<times> page \<Rightarrow> tooltip \<times> page" where
  "updatePosition win event = (\<lambda>(t, p).
    let position = calculateTooltipPosition win event;
        p = p\<lparr>style_left := Some (left_px position)\<rparr>;
        p = p\<lparr>style_top := Some (top_px position)\<rparr>
    in (t, p))"

subsection \<open>Tooltip.createDefaultTimeline\<close>

fun is_Timeline :: "gsap_call \<Rightarrow> bool" where
  "is_Timeline (Timeline n d e) = True"
| "is_Timeline _ = False"

text \<open>The engine numbers its timelines in the order \<^verbatim>\<open>gsap.timeline\<close> creates them.\<close>

definition gsap_timeline :: "rat \<Rightarrow> string \<Rightarrow> page \<Rightarrow> nat \<times> page" where
  "gsap_timeline duration ease p =
    (let n = length (filter is_Timeline (engine p))
     in (n, p\<lparr>engine := engine p @ [Timeline n duration ease]\<rparr>))"

definition createDefaultTimeline :: "rat \<Rightarrow> string \<Rightarrow> tooltip \<times> page \<Rightarrow> nat \<times> page" where
  "createDefaultTimeline duration ease = (\<lambda>(t, p).
    let p = (case tl t of
               Some old \<Rightarrow> p\<lparr>engine := engine p @ [Kill old]\<rparr>
             | None \<Rightarrow> p)
    in gsap_timeline duration ease p)"



subsection \<open>The timeline callbacks\<close>

text \<open>The bodies of the closures given to the engine (\<^verbatim>\<open>onStart\<close>, \<^verbatim>\<open>onComplete\<close> and the
  two functions added by \<^verbatim>\<open>animateTooltipContent\<close>), as they act when the engine runs them.\<close>

fun run_callback :: "callback \<Rightarrow> tooltip \<times> page \<Rightarrow> completion \<times> tooltip \<times> page" where
  "run_callback OnStart (t, p) =
    (if isOpen t then (Normal, t, p\<lparr>el_zIndex := Some 99999, class_show := True\<rparr>)
     else (Normal, t, p\<lparr>el_zIndex := Some 0\<rparr>))"
| "run_callback OnComplete (t, p) =
    (if \<not> isOpen t then (Normal, t, p\<lparr>class_show := False\<rparr>) else (Normal, t, p))"
| "run_callback GlitchTitle (t, p) =
    (case DOM_contentTitle t of
       None \<Rightarrow> (Thrown TypeError, t, p)
     | Some e \<Rightarrow> (Normal, t, p\<lparr>title_glitch := isOpen t\<rparr>))"
| "run_callback GlitchDescription (t, p) =
    (case DOM_contentDescription t of
       None \<Rightarrow> (Thrown TypeError, t, p)
     | Some e \<Rightarrow> (Normal, t, p\<lparr>desc_glitch := isOpen t\<rparr>))"

subsection \<open>Tooltip.animateTooltipContent and the six effects\<close>

text \<open>
  \<^verbatim>\<open>this.tl.fromTo([this.DOM.contentTitle, this.DOM.contentDescription], ...)\<close> hands the
  engine an array whose first entry it dereferences: when the title node is \<^verbatim>\<open>null\<close> the
  call throws a \<^verbatim>\<open>TypeError\<close> inside the engine, so nothing is queued and the two
  \<^verbatim>\<open>add\<close> calls are not reached. A \<^verbatim>\<open>null\<close> description behind a title is passed on as it
  is.
\<close>

definition animateTooltipContent :: "tooltip \<times> page \<Rightarrow> completion \<times> tooltip \<times> page" where
  "animateTooltipContent = (\<lambda>(t, p).
    case tl t of
      None \<Rightarrow> (Thrown TypeError, t, p)
    | Some n \<Rightarrow>
        (case DOM_contentTitle t of
           None \<Rightarrow> (Thrown TypeError, t, p)
         | Some title \<Rightarrow>
             (Normal, t, p\<lparr>engine := engine p @
               [FromTo n [DOM_contentTitle t, DOM_contentDescription t]
                  [(''opacity'', Num (if isOpen t then 0 else 1))]
                  [(''duration'', Num 0.2),
                   (''opacity'', Num (if isOpen t then 1 else 0)),
                   (''stagger'', Num (if isOpen t then 0.2 else 0))]
                  (if isOpen t then 0.4 else 0),
                Add n GlitchTitle (if isOpen t then 0.8 else 0),
                Add n GlitchDescription (if isOpen t then 1 else 0)]\<rparr>)))"

text \<open>An array of cells as a tween target; \<^verbatim>\<open>null\<close> is passed on as it is.\<close>

definition cells_target :: "tooltip \<Rightarrow> elem option list" where
  "cells_target t = (case DOM_cells t of None \<Rightarrow> [None] | Some cs \<Rightarrow> map Some cs)"

definition stagger :: "rat \<Rightarrow> string \<Rightarrow> bool \<Rightarrow> string \<times> jsval" where
  "stagger each origin grid =
    (''stagger'', Obj ([(''each'', Num each), (''from'', Str origin)]
                       @ (if grid then [(''grid'', Str ''auto'')] else [])))"

definition tl_call :: "gsap_call \<Rightarrow> page \<Rightarrow> page" where
  "tl_call c p = p\<lparr>engine := engine p @ [c]\<rparr>"

definition animateEffect1 :: "pointer_event \<Rightarrow> tooltip \<times> page \<Rightarrow> completion \<times> tooltip \<times> page" where
  "animateEffect1 event = (\<lambda>(t, p).
    let (n, p) = createDefaultTimeline 0.1 ''expo'' (t, p);
        t = t\<lparr>tl := Some n\<rparr>
    in case DOM_cells t of
         None \<Rightarrow> (Thrown TypeError, t, p)
       | Some cs \<Rightarrow>
           let p = foldl (\<lambda>p cell.
                     if isOpen t
                     then tl_call (FromTo n [Some cell] [(''opacity'', Num 0)]
                            [(''opacity'', Num 1), (''delay'', DistanceDelay)] 0) p
                     else tl_call (To n [Some cell]
                            [(''opacity'', Num 0), (''delay'', DistanceDelay)] 0) p) p cs
           in animateTooltipContent (t, p))"

definition animateEffect2 :: "tooltip \<times> page \<Rightarrow> completion \<times> tooltip \<times> page" where
  "animateEffect2 = (\<lambda>(t, p).
    let (n, p) = createDefaultTimeline 0.1 ''expo'' (t, p);
        t = t\<lparr>tl := Some n\<rparr>;
        p = (if isOpen t
             then tl_call (FromTo n (cells_target t)
                    [(''opacity'', Num 0), (''scale'', Num 0)]
                    [(''opacity'', Num 1), (''scale'', Num 1), stagger 0.02 ''start'' False] 0) p
             else tl_call (To n (cells_target t)
                    [(''opacity'', Num 0), (''scale'', Num 0), stagger 0.02 ''end'' False] 0) p)
    in animateTooltipContent (t, p))"

definition animateEffect3 :: "tooltip \<times> page \<Rightarrow> completion \<times> tooltip \<times> page" where
  "animateEffect3 = (\<lambda>(t, p).
    let (n, p) = createDefaultTimeline 0.1 ''expo'' (t, p);
        t = t\<lparr>tl := Some n\<rparr>;
        p = (if isOpen t
             then tl_call (FromTo n (cells_target t)
                    [(''opacity'', Num 0), (''scale'', Num 0), (''yPercent'', RandomFn (- 200) 200)]
                    [(''opacity'', Num 1), (''scale'', Num 1), (''yPercent'', Num 0),
                     stagger 0.03 ''center'' True] 0) p
             else tl_call (To n (cells_target t)
                    [(''opacity'', Num 0), (''scale'', Num 0), (''yPercent'', RandomFn (- 200) 200),
                     stagger 0.03 ''center'' True] 0) p)
    in animateTooltipContent (t, p))"

definition animateEffect4 :: "tooltip \<times> page \<Rightarrow> completion \<times> tooltip \<times> page" where
  "animateEffect4 = (\<lambda>(t, p).
    let (n, p) = createDefaultTimeline 0.1 ''expo'' (t, p);
        t = t\<lparr>tl := Some n\<rparr>;
        p = (if isOpen t
             then tl_call (FromTo n (cells_target t)
                    [(''opacity'', Num 0), (''scaleX'', Num 0.8), (''xPercent'', RandomFn (- 200) 200)]
                    [(''opacity'', Num 1), (''scaleX'', Num 1), (''xPercent'', Num 0),
                     stagger 0.02 ''random'' True] 0) p
             else tl_call (To n (cells_target t)
                    [(''opacity'', Num 0), (''scaleX'', Num 0.8), (''xPercent'', RandomFn (- 200) 200),
                     stagger 0.02 ''random'' True] 0) p)
    in animateTooltipContent (t, p))"

definition animateEffect5 :: "tooltip \<times> page \<Rightarrow> completion \<times> tooltip \<times> page" where
  "animateEffect5 = (\<lambda>(t, p).
    let (n, p) = createDefaultTimeline 0.1 ''expo'' (t, p);
        t = t\<lparr>tl := Some n\<rparr>;
        p = (if isOpen t
             then tl_call (FromTo n (cells_target t)
                    [(''opacity'', Num 0), (''scale'', Num 0)]
                    [(''opacity'', Num 1), (''scale'', Num 1), stagger 0.02 ''center'' True] 0) p
             else tl_call (To n (cells_target t)
                    [(''opacity'', Num 0), (''scale'', Num 0), stagger 0.02 ''edges'' True] 0) p)
    in animateTooltipContent (t, p))"

definition animateEffect6 :: "tooltip \<times> page \<Rightarrow> completion \<times> tooltip \<times> page" where
  "animateEffect6 = (\<lambda>(t, p).
    case DOM_bg t of
      None \<Rightarrow> (Thrown TypeError, t, p)
    | Some bg \<Rightarrow>
        let p = p\<lparr>bg_filter := ''url(#gooey)''\<rparr>;
            (n, p) = createDefaultTimeline 0.9 ''expo'' (t, p);
            t = t\<lparr>tl := Some n\<rparr>;
            p = (if isOpen t
                 then tl_call (FromTo n (cells_target t)
                        [(''opacity'', Num 0), (''scale'', Num 0.3)]
                        [(''opacity'', Num 1), (''scale'', Num 1), stagger 0.08 ''random'' True] 0) p
                 else tl_call (To n (cells_target t)
                        [(''opacity'', Num 0), (''scale'', Num 0.3), stagger 0.04 ''random'' True] 0) p)
        in animateTooltipContent (t, p))"

subsection \<open>Tooltip.#animateCells and Tooltip.toggle\<close>

text \<open>\<^verbatim>\<open>toUpperCase\<close> on one character of an attribute value (ASCII).\<close>

definition toUpperCase :: "char \<Rightarrow> char" where
  "toUpperCase c =
    (case map_of (zip ''abcdefghijklmnopqrstuvwxyz'' ''ABCDEFGHIJKLMNOPQRSTUVWXYZ'') c of
       Some u \<Rightarrow> u
     | None \<Rightarrow> c)"

text \<open>\<^verbatim>\<open>effectType.charAt(0).toUpperCase() + effectType.slice(1)\<close>\<close>

definition capitalize :: "string \<Rightarrow> string" where
  "capitalize effectType =
    map toUpperCase (take 1 effectType) @ drop 1 effectType"

datatype routine =
  AnimateTooltipContent | AnimateEffect1 | AnimateEffect2 | AnimateEffect3
  | AnimateEffect4 | AnimateEffect5 | AnimateEffect6

text \<open>\<^verbatim>\<open>this[methodName]\<close> for a name that starts with \<^verbatim>\<open>animate\<close>: the methods of the class
  with such a name; every other name gives \<^verbatim>\<open>undefined\<close>.\<close>

definition lookup_method :: "string \<Rightarrow> routine option" where
  "lookup_method methodName =
    map_of [(''animateTooltipContent'', AnimateTooltipContent),
            (''animateEffect1'', AnimateEffect1), (''animateEffect2'', AnimateEffect2),
            (''animateEffect3'', AnimateEffect3), (''animateEffect4'', AnimateEffect4),
            (''animateEffect5'', AnimateEffect5), (''animateEffect6'', AnimateEffect6)]
      methodName"

fun call_method :: "routine \<Rightarrow> pointer_event \<Rightarrow> tooltip \<times> page \<Rightarrow> completion \<times> tooltip \<times> page" where
  "call_method AnimateTooltipContent event s = animateTooltipContent s"
| "call_method AnimateEffect1 event s = animateEffect1 event s"
| "call_method AnimateEffect2 event s = animateEffect2 s"
| "call_method AnimateEffect3 event s = animateEffect3 s"
| "call_method AnimateEffect4 event s = animateEffect4 s"
| "call_method AnimateEffect5 event s = animateEffect5 s"
| "call_method AnimateEffect6 event s = animateEffect6 s"

definition warning :: "string \<Rightarrow> string" where
  "warning effectType = ''Animation effect '' @ [CHR 0x27] @ effectType @ [CHR 0x27] @ '' is not defined.''"

text \<open>\<^verbatim>\<open>effectType\<close> is \<open>None\<close> when the trigger has no \<^verbatim>\<open>data-effect\<close> attribute: reading
  \<^verbatim>\<open>charAt\<close> of \<^verbatim>\<open>undefined\<close> throws.\<close>

definition animateCells ::
    "string option \<Rightarrow> pointer_event \<Rightarrow> tooltip \<times> page \<Rightarrow> completion \<times> tooltip \<times> page" where
  "animateCells effectType event = (\<lambda>(t, p).
    case effectType of
      None \<Rightarrow> (Thrown TypeError, t, p)
    | Some effect \<Rightarrow>
        (let methodName = ''animate'' @ capitalize effect
         in (case lookup_method methodName of
               Some m \<Rightarrow> call_method m event (t, p)
             | None \<Rightarrow> (Normal, t, p\<lparr>console := console p @ [warning effect]\<rparr>))))"

definition toggle ::
    "string option \<Rightarrow> pointer_event \<Rightarrow> tooltip \<times> page \<Rightarrow> completion \<times> tooltip \<times> page" where
  "toggle effectType event = (\<lambda>(t, p).
    animateCells effectType event (t\<lparr>isOpen := \<not> isOpen t\<rparr>, p))"

text \<open>The states an instance can be in: the constructor's result, and from there every call
  of \<^verbatim>\<open>toggle\<close> and \<^verbatim>\<open>updatePosition\<close> (the two methods the listeners call) and every
  callback the engine may run, whether the call returns or throws.\<close>

inductive reachable :: "tooltip \<times> page \<Rightarrow> bool" where
  constructed: "constructor DOM_el_arg initial_page = Inr s \<Longrightarrow> reachable s"
| toggled: "reachable s \<Longrightarrow> toggle effectType event s = (c, s') \<Longrightarrow> reachable s'"
| moved: "reachable s \<Longrightarrow> reachable (updatePosition win event s)"
| called_back: "reachable s \<Longrightarrow> run_callback cb s = (c, s') \<Longrightarrow> reachable s'"


section \<open>The listeners of one trigger\<close>

text \<open>
  Time is counted in milliseconds. A pending timer has the handle \<^verbatim>\<open>setTimeout\<close> returned,
  the time it is due and the callback to run: the show callback of the start listener or the
  hide callback of the end listener, each with the event its listener received (for a touch
  device, the point \<^verbatim>\<open>event.touches[0]\<close>). Mouse and touch devices differ in the names of
  the three events and in \<^verbatim>\<open>preventDefault\<close>, which changes nothing the tooltip reads; the
  coordinates of the event handed to \<^verbatim>\<open>toggle\<close> are read by the first effect only, for
  delays that the model leaves to the engine.
\<close>

datatype timer_callback = ShowCallback pointer_event | HideCallback pointer_event

record timer =
  handle :: nat
  due :: nat
  action :: timer_callback

text \<open>The variables of one trigger's closure and the part of the event loop it uses.
  \<open>toggle_calls\<close> is not a variable of the program: it counts the calls of \<^verbatim>\<open>toggle\<close> the
  listeners have made, so that a theorem can say that none was made.\<close>

record dispatcher =
  tooltip_state :: "tooltip \<times> page"
  showTimeout :: "nat option"
  hideTimeout :: "nat option"
  timers :: "timer list"
  next_handle :: nat
  now :: nat
  toggle_calls :: nat

definition initial_dispatcher :: "tooltip \<times> page \<Rightarrow> dispatcher" where
  "initial_dispatcher s =
    \<lparr>tooltip_state = s, showTimeout = None, hideTimeout = None, timers = [],
     next_handle = 1, now = 0, toggle_calls = 0\<rparr>"

definition setTimeout :: "timer_callback \<Rightarrow> nat \<Rightarrow> dispatcher \<Rightarrow> nat \<times> dispatcher" where
  "setTimeout cb delay d =
    (next_handle d,
     d\<lparr>timers := timers d @ [\<lparr>handle = next_handle d, due = now d + delay, action = cb\<rparr>],
       next_handle := next_handle d + 1\<rparr>)"

text \<open>\<^verbatim>\<open>clearTimeout\<close> of \<^verbatim>\<open>undefined\<close>, or of a timer that has fired, does nothing.\<close>

definition clearTimeout :: "nat option \<Rightarrow> dispatcher \<Rightarrow> dispatcher" where
  "clearTimeout h d = d\<lparr>timers := filter (\<lambda>t. Some (handle t) \<noteq> h) (timers d)\<rparr>"

text \<open>The callbacks. An exception thrown in a timer callback ends that callback only; what it
  assigned before stays.\<close>

definition call_toggle :: "string option \<Rightarrow> pointer_event \<Rightarrow> dispatcher \<Rightarrow> dispatcher" where
  "call_toggle effect event d =
    d\<lparr>tooltip_state := snd (toggle effect event (tooltip_state d)),
      toggle_calls := toggle_calls d + 1\<rparr>"

fun run_timer :: "browser \<Rightarrow> string option \<Rightarrow> dispatcher \<Rightarrow> timer_callback \<Rightarrow> dispatcher" where
  "run_timer win effect d (ShowCallback touchEvent) =
    (if \<not> isOpen (fst (tooltip_state d))
     then call_toggle effect touchEvent
            (d\<lparr>tooltip_state := updatePosition win touchEvent (tooltip_state d)\<rparr>)
     else d)"
| "run_timer win effect d (HideCallback event) =
    (if isOpen (fst (tooltip_state d)) then call_toggle effect event d else d)"

datatype input =
  StartEvent pointer_event
  | MoveEvent pointer_event
  | EndEvent pointer_event
  | Elapse nat

text \<open>One step: a listener runs on its event, or time passes and the timers that are due
  fire, earliest first (timers due at the same time in the order they were set).\<close>

fun step :: "browser \<Rightarrow> string option \<Rightarrow> dispatcher \<Rightarrow> input \<Rightarrow> dispatcher" where
  "step win effect d (StartEvent event) =
    (let d = clearTimeout (hideTimeout d) d;
         (h, d) = setTimeout (ShowCallback event) 40 d
     in d\<lparr>showTimeout := Some h\<rparr>)"
| "step win effect d (MoveEvent event) =
    (if isOpen (fst (tooltip_state d))
     then d\<lparr>tooltip_state := updatePosition win event (tooltip_state d)\<rparr>
     else d)"
| "step win effect d (EndEvent event) =
    (let d = clearTimeout (showTimeout d) d;
         (h, d) = setTimeout (HideCallback event) 40 d
     in d\<lparr>hideTimeout := Some h\<rparr>)"
| "step win effect d (Elapse ms) =
    (let fired = sort_key due (filter (\<lambda>t. due t \<le> now d + ms) (timers d));
         d = d\<lparr>timers := filter (\<lambda>t. \<not> due t \<le> now d + ms) (timers d), now := now d + ms\<rparr>
     in foldl (run_timer win effect) d (map action fired))"

definition run :: "browser \<Rightarrow> string option \<Rightarrow> dispatcher \<Rightarrow> input list \<Rightarrow> dispatcher" where
  "run win effect d inputs = foldl (step win effect) d inputs"

text \<open>A target with every queried descendant present and the given grid attributes.\<close>

definition complete_target :: "string option \<Rightarrow> string option \<Rightarrow> target" where
  "complete_target r c =
    \<lparr>has_bg = True, has_content = True, has_title = True, has_desc = True,
     dataset_rows = r, dataset_cols = c\<rparr>"

section \<open>Notions used in the statements\<close>

text \<open>The markup of \<open>n\<close> empty cells.\<close>

definition div_markup :: "nat \<Rightarrow> string" where
  "div_markup n = concat (replicate n ''<div></div>'')"

text \<open>The invariant as the specification words it: \<^verbatim>\<open>cells.length == rows * cols\<close>.\<close>

definition grid_invariant :: "tooltip \<Rightarrow> bool" where
  "grid_invariant t =
    (case DOM_cells t of None \<Rightarrow> False | Some cells \<Rightarrow> int (length cells) = rows t * cols t)"






fun is_hide :: "timer_callback \<Rightarrow> bool" where
  "is_hide (HideCallback event) = True"
| "is_hide (ShowCallback event) = False"

subsection \<open>Concrete instances\<close>

definition scenario_pointer :: pointer_event where
  "scenario_pointer = \<lparr>clientX = 900, clientY = 700\<rparr>"

text \<open>The instance built from a complete target with \<^verbatim>\<open>data-rows="1" data-cols="1"\<close>.\<close>

definition single_cell :: "tooltip \<times> page" where
  "single_cell =
    (\<lparr>DOM_el = TooltipEl, DOM_bg = Some BgEl, DOM_content = Some ContentEl,
      DOM_contentTitle = Some TitleEl, DOM_contentDescription = Some DescEl,
      DOM_cells = Some [CellEl 0], rows = 1, cols = 1, isOpen = False, tl = None\<rparr>,
     initial_page\<lparr>tt_columns := Some 1, tt_rows := Some 1, bg_innerHTML := ''<div></div>''\<rparr>)"

text \<open>The instance built from a complete target with \<^verbatim>\<open>data-rows="2" data-cols="3"\<close>.\<close>

definition grid_2x3 :: "tooltip \<times> page" where
  "grid_2x3 =
    (\<lparr>DOM_el = TooltipEl, DOM_bg = Some BgEl, DOM_content = Some ContentEl,
      DOM_contentTitle = Some TitleEl, DOM_contentDescription = Some DescEl,
      DOM_cells = Some [CellEl 0, CellEl 1, CellEl 2, CellEl 3, CellEl 4, CellEl 5],
      rows = 2, cols = 3, isOpen = False, tl = None\<rparr>,
     initial_page\<lparr>tt_columns := Some 3, tt_rows := Some 2,
       bg_innerHTML := ''<div></div><div></div><div></div><div></div><div></div><div></div>''\<rparr>)"

text \<open>The instance built from a complete target with \<^verbatim>\<open>data-rows="-3"\<close> and no
  \<^verbatim>\<open>data-cols\<close>.\<close>

definition negative_rows :: "tooltip \<times> page" where
  "negative_rows =
    (\<lparr>DOM_el = TooltipEl, DOM_bg = Some BgEl, DOM_content = Some ContentEl,
      DOM_contentTitle = Some TitleEl, DOM_contentDescription = Some DescEl,
      DOM_cells = Some [], rows = - 3, cols = 4, isOpen = False, tl = None\<rparr>,
     initial_page\<lparr>tt_columns := Some 4, tt_rows := Some (- 3), bg_innerHTML := []\<rparr>)"

text \<open>The one-cell instance after it was opened with the first effect.\<close>

definition opened_once :: "tooltip \<times> page" where
  "opened_once = snd (toggle (Some ''effect1'') scenario_pointer single_cell)"

text \<open>A trigger whose tooltip has opened and whose pointer left 10 ms ago: the hide timer of
  that end event is pending.\<close>

definition hovered :: dispatcher where
  "hovered = run scenario_window (Some ''effect2'') (initial_dispatcher single_cell)
     [StartEvent scenario_pointer, Elapse 40, EndEvent scenario_pointer, Elapse 10]"

text \<open>The equations of the loops are unfolded one step at a time, where a proof asks for it.\<close>

declare layout_cols.simps [simp del] layout_rows.simps [simp del] count_divs.simps [simp del]

section \<open>Position clamping\<close>

text \<open>
  C1. With zero scroll offsets and the pointer inside the viewport
  (\<open>0 \<le> x \<le> W\<close>, \<open>0 \<le> y \<le> H\<close>), the position returned by
  \<^verbatim>\<open>calculateTooltipPosition\<close> has its left coordinate in \<open>[0, max 0 (W - w)]\<close> and its
  top coordinate in \<open>[0, max 0 (H - h)]\<close>, for every tooltip size \<open>(w, h)\<close>.
\<close>

theorem calculateTooltipPosition_clamped:
  assumes "pageXOffset win = 0" and "doc_scrollLeft win = 0"
    and "pageYOffset win = 0" and "doc_scrollTop win = 0"
    and "0 \<le> clientX event" and "clientX event \<le> innerWidth win"
    and "0 \<le> clientY event" and "clientY event \<le> innerHeight win"
  shows "0 \<le> left_px (calculateTooltipPosition win event)
    \<and> left_px (calculateTooltipPosition win event) \<le> max 0 (innerWidth win - offsetWidth win)
    \<and> 0 \<le> top_px (calculateTooltipPosition win event)
    \<and> top_px (calculateTooltipPosition win event) \<le> max 0 (innerHeight win - offsetHeight win)"
  using assms by (simp add: calculateTooltipPosition_def num_or_def Let_def)

theorem calculateTooltipPosition_clamped_witness:
  "left_px (calculateTooltipPosition scenario_window \<lparr>clientX = 900, clientY = 700\<rparr>) \<in> {0 .. 824}
   \<and> top_px (calculateTooltipPosition scenario_window \<lparr>clientX = 900, clientY = 700\<rparr>) \<in> {0 .. 668}"
  using calculateTooltipPosition_clamped [of scenario_window "\<lparr>clientX = 900, clientY = 700\<rparr>"]
  by (simp add: scenario_window_def)

text \<open>
  C2. In the scenario window with the pointer at \<open>(900, 700)\<close> the box would overflow the
  right and the bottom edge, so both coordinates flip to pointer minus size: the result is
  \<open>left = 900 - 200 = 700\<close> and \<open>top = 700 - 100 = 600\<close>.
\<close>

theorem calculateTooltipPosition_scenario:
  "calculateTooltipPosition scenario_window \<lparr>clientX = 900, clientY = 700\<rparr>
     = \<lparr>left_px = 700, top_px = 600\<rparr>"
  by (simp add: calculateTooltipPosition_def scenario_window_def num_or_def)

theorem calculateTooltipPosition_scenario_counterexample:
  "calculateTooltipPosition scenario_window \<lparr>clientX = 900, clientY = 700\<rparr>
     \<noteq> \<lparr>left_px = 824, top_px = 668\<rparr>"
  by (simp add: calculateTooltipPosition_def scenario_window_def num_or_def)

section \<open>The grid built by the constructor\<close>

lemma div_markup_Suc: "div_markup (Suc n) = ''<div></div>'' @ div_markup n"
  by (simp add: div_markup_def)

lemma div_markup_0: "div_markup 0 = []"
  by (simp add: div_markup_def)

lemma div_markup_add: "div_markup (m + n) = div_markup m @ div_markup n"
  by (simp add: div_markup_def replicate_add)

lemma layout_cols_markup:
  "layout_cols col c strHTML = strHTML @ div_markup (nat (c - col))"
proof (induction col c strHTML rule: layout_cols.induct)
  case (1 col c strHTML)
  show ?case
  proof (cases "col < c")
    case True
    then have n: "nat (c - col) = Suc (nat (c - (col + 1)))" by simp
    have "layout_cols col c strHTML = layout_cols (col + 1) c (strHTML @ ''<div></div>'')"
      using True by (subst layout_cols.simps) simp
    also have "\<dots> = (strHTML @ ''<div></div>'') @ div_markup (nat (c - (col + 1)))"
      using "1" True by simp
    also have "\<dots> = strHTML @ div_markup (nat (c - col))"
      unfolding n div_markup_Suc by simp
    finally show ?thesis .
  next
    case False
    then have "layout_cols col c strHTML = strHTML"
      by (subst layout_cols.simps) simp
    with False show ?thesis by (simp add: div_markup_0)
  qed
qed


lemma layout_rows_markup:
  "layout_rows row r c strHTML = strHTML @ div_markup (nat (r - row) * nat c)"
proof (induction row r c strHTML rule: layout_rows.induct)
  case (1 row r c strHTML)
  show ?case
  proof (cases "row < r")
    case True
    then have n: "nat (r - row) = Suc (nat (r - (row + 1)))" by simp
    have "layout_rows row r c strHTML = layout_rows (row + 1) r c (layout_cols 0 c strHTML)"
      using True by (subst layout_rows.simps) simp
    also have "\<dots> = (strHTML @ div_markup (nat c)) @ div_markup (nat (r - (row + 1)) * nat c)"
      using "1" True by (simp add: layout_cols_markup)
    also have "\<dots> = strHTML @ div_markup (nat (r - row) * nat c)"
      unfolding n by (simp add: div_markup_add)
    finally show ?thesis .
  next
    case False
    then have "layout_rows row r c strHTML = strHTML"
      by (subst layout_rows.simps) simp
    with False show ?thesis by (simp add: div_markup_0)
  qed
qed

lemma count_divs_markup: "count_divs (div_markup n) = n"
proof (induction n)
  case 0
  show ?case by (subst count_divs.simps) (simp add: div_markup_0)
next
  case (Suc n)
  have "count_divs (''<div></div>'' @ div_markup n) = Suc (count_divs (div_markup n))"
    by (subst count_divs.simps) simp
  then show ?case using Suc by (simp only: div_markup_Suc)
qed

lemma layout_cells:
  assumes "layout (t, p) = Inr (t', p')"
  shows "t' = t\<lparr>DOM_cells := Some (map CellEl [0 ..< nat (rows t) * nat (cols t)])\<rparr>"
proof -
  have "layout_rows 0 (rows t) (cols t) [] = div_markup (nat (rows t) * nat (cols t))"
    by (simp add: layout_rows_markup)
  then show ?thesis using assms
    by (auto simp: layout_def Let_def querySelectorAll_div_def count_divs_markup
      split: option.splits)
qed

lemma constructor_cells:
  assumes "constructor d p = Inr (t, p')"
  shows "DOM_cells t = Some (map CellEl [0 ..< nat (rows t) * nat (cols t)])"
  using assms
  by (auto simp: constructor_def Let_def dest!: layout_cells split: option.splits)

lemma nat_max: "int (nat r * nat c) = max 0 r * max 0 c"
  by (cases "0 \<le> r"; cases "0 \<le> c") (simp_all add: max_def)

section \<open>What a call leaves unchanged\<close>

lemma animateTooltipContent_frame:
  "animateTooltipContent (t, p) = (c, t', p') \<Longrightarrow> t' = t"
  by (auto simp: animateTooltipContent_def split: option.splits)

lemma tl_update_self: "\<exists>x. (t::tooltip) = t\<lparr>tl := x\<rparr>"
  by (rule exI [of _ "tl t"]) simp

lemma call_method_frame:
  assumes "call_method m event (t, p) = (c, t', p')"
  shows "\<exists>x. t' = t\<lparr>tl := x\<rparr>"
  using assms
  by (cases m)
     (auto simp: animateEffect1_def animateEffect2_def animateEffect3_def animateEffect4_def
        animateEffect5_def animateEffect6_def Let_def tl_update_self
        dest!: animateTooltipContent_frame split: option.splits prod.splits)

lemma toggle_frame:
  assumes "toggle effectType event (t, p) = (c, t', p')"
  shows "\<exists>x. t' = t\<lparr>isOpen := \<not> isOpen t, tl := x\<rparr>"
proof (cases effectType)
  case None
  with assms show ?thesis
    by (auto simp: toggle_def animateCells_def intro: exI [of _ "tl t"])
next
  case (Some effect)
  show ?thesis
  proof (cases "lookup_method (''animate'' @ capitalize effect)")
    case None
    with Some assms show ?thesis
      by (auto simp: toggle_def animateCells_def intro: exI [of _ "tl t"])
  next
    case (Some m)
    with \<open>effectType = Some effect\<close> assms
    have "call_method m event (t\<lparr>isOpen := \<not> isOpen t\<rparr>, p) = (c, t', p')"
      by (simp add: toggle_def animateCells_def)
    from call_method_frame [OF this] show ?thesis by auto
  qed
qed

lemma updatePosition_frame: "fst (updatePosition win event (t, p)) = t"
  by (simp add: updatePosition_def Let_def)

lemma run_callback_frame: "run_callback cb (t, p) = (c, t', p') \<Longrightarrow> t' = t"
  by (cases cb) (auto split: if_splits option.splits)

lemma reachable_cells:
  "reachable s \<Longrightarrow> DOM_cells (fst s) = Some (map CellEl [0 ..< nat (rows (fst s)) * nat (cols (fst s))])"
proof (induction rule: reachable.induct)
  case (constructed d s)
  then show ?case using constructor_cells [of d initial_page "fst s" "snd s"] by simp
next
  case (toggled s effectType event c s')
  obtain x where "fst s' = (fst s)\<lparr>isOpen := \<not> isOpen (fst s), tl := x\<rparr>"
    using toggled(2) toggle_frame [of effectType event "fst s" "snd s" c "fst s'" "snd s'"]
    by auto
  with toggled(3) show ?case by simp
next
  case (moved s win event)
  then show ?case using updatePosition_frame [of win event "fst s" "snd s"] by simp
next
  case (called_back s cb c s')
  then show ?case using run_callback_frame [of cb "fst s" "snd s" c "fst s'" "snd s'"] by simp
qed

lemma reachable_toggle: "reachable s \<Longrightarrow> reachable (snd (toggle effectType event s))"
  by (rule reachable.toggled [where c = "fst (toggle effectType event s)"]) simp_all


lemma grid_2x3_constructed:
  "constructor (complete_target (Some ''2'') (Some ''3'')) initial_page = Inr grid_2x3"
  by code_simp

lemma constructor_succeeds:
  assumes "has_content d" and "has_bg d"
  shows "\<exists>t p'. constructor d p = Inr (t, p')"
  using assms by (simp add: constructor_def layout_def querySelector_def Let_def)

text \<open>
  C5. In every state an instance can reach, the number of cells is
  \<open>max 0 rows * max 0 cols\<close>: the two loops of \<^verbatim>\<open>#layout\<close> run \<open>max 0 rows\<close> and
  \<open>max 0 cols\<close> times, and no method changes the cells or the counts afterwards. So the
  invariant \<^verbatim>\<open>cells.length == rows * cols\<close> holds whenever neither count is negative.
\<close>

theorem grid_cell_count:
  assumes "reachable (t, p)"
  shows "\<exists>cells. DOM_cells t = Some cells
    \<and> int (length cells) = max 0 (rows t) * max 0 (cols t)
    \<and> (0 \<le> rows t \<and> 0 \<le> cols t \<longrightarrow> grid_invariant t)"
  using reachable_cells [OF assms]
  by (auto simp: nat_max grid_invariant_def simp del: of_nat_mult)

theorem grid_cell_count_witness:
  "reachable (snd (toggle (Some ''effect3'') scenario_pointer grid_2x3))
   \<and> rows (fst (snd (toggle (Some ''effect3'') scenario_pointer grid_2x3))) = 2
   \<and> cols (fst (snd (toggle (Some ''effect3'') scenario_pointer grid_2x3))) = 3
   \<and> map_option length (DOM_cells (fst (snd (toggle (Some ''effect3'') scenario_pointer grid_2x3))))
       = Some 6
   \<and> grid_invariant (fst (snd (toggle (Some ''effect3'') scenario_pointer grid_2x3)))"
proof -
  let ?s = "snd (toggle (Some ''effect3'') scenario_pointer grid_2x3)"
  have r: "reachable (fst ?s, snd ?s)"
    using reachable_toggle [OF reachable.constructed [OF grid_2x3_constructed]] by simp
  have rc: "rows (fst ?s) = 2" "cols (fst ?s) = 3" by code_simp+
  show ?thesis using grid_cell_count [OF r] r rc by auto
qed

text \<open>A target with \<^verbatim>\<open>data-rows="-3"\<close> gets \<open>rows = -3\<close> and \<open>cols = 4\<close>; no cell is
  created, and \<open>0\<close> is not \<open>-3 * 4\<close>.\<close>

theorem grid_cell_count_counterexample:
  "constructor (complete_target (Some ''-3'') None) initial_page = Inr negative_rows
   \<and> map_option length (DOM_cells (fst negative_rows)) = Some 0
   \<and> rows (fst negative_rows) * cols (fst negative_rows) = - 12
   \<and> \<not> grid_invariant (fst negative_rows)"
  by code_simp

section \<open>The row and column counts\<close>

text \<open>
  C9. For every constructed instance \<open>rows\<close> and \<open>cols\<close> are not zero: an attribute that
  parses to \<open>0\<close>, or does not parse to a number, is replaced by the default \<open>4\<close>, so a
  grid configured as 0 by 0 is impossible. Every other parsed value is kept as it is, a
  negative one too.
\<close>

theorem constructor_rows_cols:
  assumes "constructor d p = Inr (t, p')"
  shows "rows t \<noteq> 0 \<and> cols t \<noteq> 0
    \<and> (parseInt (dataset_rows d) = None \<or> parseInt (dataset_rows d) = Some 0 \<longrightarrow> rows t = 4)
    \<and> (parseInt (dataset_cols d) = None \<or> parseInt (dataset_cols d) = Some 0 \<longrightarrow> cols t = 4)
    \<and> (\<forall>k. parseInt (dataset_rows d) = Some k \<and> k \<noteq> 0 \<longrightarrow> rows t = k)
    \<and> (\<forall>k. parseInt (dataset_cols d) = Some k \<and> k \<noteq> 0 \<longrightarrow> cols t = k)"
  using assms
  by (auto simp: constructor_def layout_def Let_def or_default_def
      split: option.splits if_splits)

theorem constructor_rows_cols_witness:
  "(\<exists>t p'. constructor (complete_target (Some ''0'') (Some ''7'')) initial_page = Inr (t, p')
      \<and> rows t = 4 \<and> cols t = 7)
   \<and> (\<exists>t p'. constructor (complete_target (Some ''2 rows'') None) initial_page = Inr (t, p')
      \<and> rows t = 2 \<and> cols t = 4)"
proof -
  have 1: "parseInt (Some ''0'') = Some 0" "parseInt (Some ''7'') = Some 7"
    "parseInt (Some ''2 rows'') = Some 2" "parseInt None = None"
    by code_simp+
  obtain t p' where a: "constructor (complete_target (Some ''0'') (Some ''7'')) initial_page = Inr (t, p')"
    using constructor_succeeds [of "complete_target (Some ''0'') (Some ''7'')" initial_page]
    by (auto simp: complete_target_def)
  obtain u q where b: "constructor (complete_target (Some ''2 rows'') None) initial_page = Inr (u, q)"
    using constructor_succeeds [of "complete_target (Some ''2 rows'') None" initial_page]
    by (auto simp: complete_target_def)
  have "rows t = 4 \<and> cols t = 7"
    using constructor_rows_cols [OF a] 1 by (simp add: complete_target_def)
  moreover have "rows u = 2 \<and> cols u = 4"
    using constructor_rows_cols [OF b] 1 by (simp add: complete_target_def)
  ultimately show ?thesis using a b by simp
qed

text \<open>A target with \<^verbatim>\<open>data-rows="-3"\<close> is constructed with \<open>rows = -3\<close>, which is not at
  least \<open>1\<close>.\<close>

theorem constructor_rows_cols_counterexample:
  "constructor (complete_target (Some ''-3'') None) initial_page = Inr negative_rows
   \<and> rows (fst negative_rows) = - 3
   \<and> \<not> 1 \<le> rows (fst negative_rows)"
  by code_simp

section \<open>Calls to the animation engine\<close>




























section \<open>Targets with missing nodes\<close>

lemma content_title_missing:
  "DOM_contentTitle t = None \<Longrightarrow> fst (animateTooltipContent (t, p)) = Thrown TypeError"
  by (simp add: animateTooltipContent_def split: option.splits)

lemma call_method_title_missing:
  assumes "DOM_contentTitle t = None"
  shows "fst (call_method m event (t, p)) = Thrown TypeError"
  using assms
  by (cases m)
     (auto simp: animateEffect1_def animateEffect2_def animateEffect3_def animateEffect4_def
        animateEffect5_def animateEffect6_def Let_def content_title_missing
        split: option.splits prod.splits)

lemma toggle_title_missing:
  assumes "DOM_contentTitle t = None"
    and "lookup_method (''animate'' @ capitalize effect) = Some m"
  shows "fst (toggle (Some effect) event (t, p)) = Thrown TypeError"
  using assms by (simp add: toggle_def animateCells_def call_method_title_missing)

lemma content_returned_tl:
  assumes "animateTooltipContent (t, p) = (Normal, t', p')"
  shows "Add (the (tl t')) GlitchDescription (if isOpen t' then 1 else 0) \<in> set (engine p')"
  using assms
  by (auto simp: animateTooltipContent_def split: option.splits)

lemma content_returned:
  assumes "animateTooltipContent (t, p) = (Normal, t', p')"
  shows "\<exists>n x. Add n GlitchDescription x \<in> set (engine p')"
  using content_returned_tl [OF assms] by blast

lemma call_method_returned:
  assumes "call_method m event (t, p) = (Normal, t', p')"
  shows "\<exists>n x. Add n GlitchDescription x \<in> set (engine p')"
  using assms
  by (cases m)
     (auto simp: animateEffect1_def animateEffect2_def animateEffect3_def animateEffect4_def
        animateEffect5_def animateEffect6_def Let_def
        dest!: content_returned split: option.splits prod.splits)

lemma toggle_desc_missing:
  assumes "DOM_contentDescription t = None"
    and "lookup_method (''animate'' @ capitalize effect) = Some m"
    and "toggle (Some effect) event (t, p) = (c, t', q)"
  shows "c = Thrown TypeError
    \<or> ((\<exists>n x. Add n GlitchDescription x \<in> set (engine q))
        \<and> fst (run_callback GlitchDescription (t', q)) = Thrown TypeError)"
proof (cases c)
  case Normal
  have call: "call_method m event (t\<lparr>isOpen := \<not> isOpen t\<rparr>, p) = (Normal, t', q)"
    using assms(2,3) Normal by (simp add: toggle_def animateCells_def)
  obtain x where "t' = t\<lparr>isOpen := \<not> isOpen t, tl := x\<rparr>"
    using toggle_frame [OF assms(3)] by blast
  then have "DOM_contentDescription t' = None" using assms(1) by simp
  then have "fst (run_callback GlitchDescription (t', q)) = Thrown TypeError" by simp
  then show ?thesis using call_method_returned [OF call] by simp
next
  case (Thrown err)
  then show ?thesis by (cases err) simp
qed

text \<open>
  C3. When the content container is present but its title or description node is missing
  (and the background container is present), construction completes and leaves the
  corresponding field \<^verbatim>\<open>null\<close>, and it is the animation that fails afterwards: without
  the title every \<^verbatim>\<open>toggle\<close> with a name that resolves to a method throws a
  \<^verbatim>\<open>TypeError\<close>; without the description such a \<^verbatim>\<open>toggle\<close> throws, or it returns with the
  description callback scheduled, and that callback throws when the engine runs it. When the
  content container itself is missing, the constructor throws a \<^verbatim>\<open>TypeError\<close> and no
  instance exists (likewise when the background container is missing).
\<close>

theorem constructor_missing_nodes:
  "(\<not> has_content d \<longrightarrow> constructor d p = Inl TypeError)
   \<and> (has_content d \<and> \<not> has_bg d \<longrightarrow> constructor d p = Inl TypeError)
   \<and> (has_content d \<and> has_bg d \<longrightarrow>
        (\<exists>t p'. constructor d p = Inr (t, p')
          \<and> DOM_contentTitle t = (if has_title d then Some TitleEl else None)
          \<and> DOM_contentDescription t = (if has_desc d then Some DescEl else None)
          \<and> (\<forall>effect m event.
                lookup_method (''animate'' @ capitalize effect) = Some m \<longrightarrow>
                (\<not> has_title d \<longrightarrow>
                   fst (toggle (Some effect) event (t, p')) = Thrown TypeError)
                \<and> (\<not> has_desc d \<longrightarrow>
                     fst (toggle (Some effect) event (t, p')) = Thrown TypeError
                     \<or> ((\<exists>n x. Add n GlitchDescription x
                                 \<in> set (engine (snd (snd (toggle (Some effect) event (t, p'))))))
                         \<and> fst (run_callback GlitchDescription
                                  (snd (toggle (Some effect) event (t, p'))))
                             = Thrown TypeError)))))"
proof (intro conjI impI)
  assume "\<not> has_content d"
  then show "constructor d p = Inl TypeError"
    by (simp add: constructor_def querySelector_def)
next
  assume "has_content d \<and> \<not> has_bg d"
  then show "constructor d p = Inl TypeError"
    by (simp add: constructor_def layout_def querySelector_def Let_def)
next
  assume present: "has_content d \<and> has_bg d"
  then obtain t p' where c: "constructor d p = Inr (t, p')"
    using constructor_succeeds by blast
  have title: "DOM_contentTitle t = (if has_title d then Some TitleEl else None)"
    and desc: "DOM_contentDescription t = (if has_desc d then Some DescEl else None)"
    using c present by (auto simp: constructor_def layout_def querySelector_def Let_def)
  have "(\<not> has_title d \<longrightarrow> fst (toggle (Some effect) event (t, p')) = Thrown TypeError)
      \<and> (\<not> has_desc d \<longrightarrow>
           fst (toggle (Some effect) event (t, p')) = Thrown TypeError
           \<or> ((\<exists>n x. Add n GlitchDescription x
                       \<in> set (engine (snd (snd (toggle (Some effect) event (t, p'))))))
               \<and> fst (run_callback GlitchDescription
                        (snd (toggle (Some effect) event (t, p')))) = Thrown TypeError))"
    if m: "lookup_method (''animate'' @ capitalize effect) = Some m"
    for effect m event
  proof (intro conjI impI)
    assume "\<not> has_title d"
    then show "fst (toggle (Some effect) event (t, p')) = Thrown TypeError"
      using title m by (simp add: toggle_title_missing)
  next
    assume "\<not> has_desc d"
    then have none: "DOM_contentDescription t = None" using desc by simp
    obtain c' t' q where tg: "toggle (Some effect) event (t, p') = (c', t', q)"
      by (cases "toggle (Some effect) event (t, p')") auto
    from toggle_desc_missing [OF none m tg] tg
    show "fst (toggle (Some effect) event (t, p')) = Thrown TypeError
           \<or> ((\<exists>n x. Add n GlitchDescription x
                       \<in> set (engine (snd (snd (toggle (Some effect) event (t, p'))))))
               \<and> fst (run_callback GlitchDescription
                        (snd (toggle (Some effect) event (t, p')))) = Thrown TypeError)"
      by simp
  qed
  with c title desc
  show "\<exists>t p'. constructor d p = Inr (t, p')
          \<and> DOM_contentTitle t = (if has_title d then Some TitleEl else None)
          \<and> DOM_contentDescription t = (if has_desc d then Some DescEl else None)
          \<and> (\<forall>effect m event.
                lookup_method (''animate'' @ capitalize effect) = Some m \<longrightarrow>
                (\<not> has_title d \<longrightarrow>
                   fst (toggle (Some effect) event (t, p')) = Thrown TypeError)
                \<and> (\<not> has_desc d \<longrightarrow>
                     fst (toggle (Some effect) event (t, p')) = Thrown TypeError
                     \<or> ((\<exists>n x. Add n GlitchDescription x
                                 \<in> set (engine (snd (snd (toggle (Some effect) event (t, p'))))))
                         \<and> fst (run_callback GlitchDescription
                                  (snd (toggle (Some effect) event (t, p'))))
                             = Thrown TypeError)))"
    by blast
qed

theorem constructor_missing_nodes_witness:
  "constructor ((complete_target None None)\<lparr>has_content := False\<rparr>) initial_page = Inl TypeError
   \<and> (\<exists>t p'. constructor ((complete_target None None)\<lparr>has_title := False\<rparr>) initial_page = Inr (t, p')
         \<and> DOM_contentTitle t = None
         \<and> fst (toggle (Some ''effect2'') scenario_pointer (t, p')) = Thrown TypeError)
   \<and> (\<exists>t p'. constructor ((complete_target None None)\<lparr>has_desc := False\<rparr>) initial_page = Inr (t, p')
         \<and> DOM_contentDescription t = None
         \<and> (fst (toggle (Some ''effect2'') scenario_pointer (t, p')) = Thrown TypeError
            \<or> fst (run_callback GlitchDescription
                    (snd (toggle (Some ''effect2'') scenario_pointer (t, p')))) = Thrown TypeError))"
proof -
  have m: "lookup_method (''animate'' @ capitalize ''effect2'') = Some AnimateEffect2"
    by code_simp
  show ?thesis
    using constructor_missing_nodes [of "(complete_target None None)\<lparr>has_content := False\<rparr>" initial_page]
      constructor_missing_nodes [of "(complete_target None None)\<lparr>has_title := False\<rparr>" initial_page]
      constructor_missing_nodes [of "(complete_target None None)\<lparr>has_desc := False\<rparr>" initial_page]
      m
    by (simp add: complete_target_def) blast
qed

text \<open>A target without the content container: the constructor does not complete.\<close>

theorem constructor_missing_nodes_counterexample:
  "constructor ((complete_target None None)\<lparr>has_content := False\<rparr>) initial_page = Inl TypeError"
  by code_simp

section \<open>One timeline at a time\<close>




section \<open>Toggling\<close>

lemma animateTooltipContent_isOpen:
  "isOpen (fst (snd (animateTooltipContent (t, p)))) = isOpen t"
  by (simp add: animateTooltipContent_def split: option.splits)

lemma call_method_isOpen:
  "isOpen (fst (snd (call_method m event (t, p)))) = isOpen t"
  by (cases m)
     (auto simp: animateEffect1_def animateEffect2_def animateEffect3_def animateEffect4_def
        animateEffect5_def animateEffect6_def animateTooltipContent_isOpen Let_def
        split: option.splits prod.splits)

lemma animateCells_isOpen:
  "isOpen (fst (snd (animateCells effectType event (t, p)))) = isOpen t"
  by (simp add: animateCells_def call_method_isOpen Let_def split: option.splits)

text \<open>
  C8. Two calls of \<^verbatim>\<open>toggle\<close> in succession, with any effect names and events and whether
  or not either call throws, leave \<^verbatim>\<open>isOpen\<close> at its original value.
\<close>

theorem toggle_twice_isOpen:
  "isOpen (fst (snd (toggle effect2 event2 (snd (toggle effect1 event1 (t, p)))))) = isOpen t"
proof -
  obtain c t' p' where 1: "toggle effect1 event1 (t, p) = (c, t', p')"
    by (cases "toggle effect1 event1 (t, p)") auto
  have "isOpen t' = (\<not> isOpen t)"
    using 1 animateCells_isOpen [of effect1 event1 "t\<lparr>isOpen := \<not> isOpen t\<rparr>" p]
    by (simp add: toggle_def)
  moreover have "isOpen (fst (snd (toggle effect2 event2 (t', p')))) = (\<not> isOpen t')"
    using animateCells_isOpen [of effect2 event2 "t'\<lparr>isOpen := \<not> isOpen t'\<rparr>" p']
    by (simp add: toggle_def)
  ultimately show ?thesis using 1 by simp
qed

text \<open>
  C10. Called with a missing effect name (\<^verbatim>\<open>undefined\<close>), \<^verbatim>\<open>toggle\<close> first flips
  \<^verbatim>\<open>isOpen\<close> and then throws a \<^verbatim>\<open>TypeError\<close> where the name is capitalised: the page,
  and so the console, is left as it was, and the diagnostic branch is not reached.
\<close>

theorem toggle_missing_effect:
  "toggle None event (t, p) = (Thrown TypeError, t\<lparr>isOpen := \<not> isOpen t\<rparr>, p)"
  by (simp add: toggle_def animateCells_def)

text \<open>
  C4. For every effect name for which no method \<^verbatim>\<open>animate<Name>\<close> exists, \<^verbatim>\<open>toggle\<close>
  returns after flipping \<^verbatim>\<open>isOpen\<close> and writing one warning to the console; nothing else
  changes: no call reaches the animation engine, the timeline field and the DOM fields of the
  instance and every style and class of the page stay as they were.
\<close>

theorem toggle_unknown_effect:
  assumes "lookup_method (''animate'' @ capitalize effect) = None"
  shows "toggle (Some effect) event (t, p)
    = (Normal, t\<lparr>isOpen := \<not> isOpen t\<rparr>, p\<lparr>console := console p @ [warning effect]\<rparr>)"
  using assms by (simp add: toggle_def animateCells_def)

theorem toggle_unknown_effect_witness:
  "lookup_method (''animate'' @ capitalize ''glow'') = None
   \<and> toggle (Some ''glow'') scenario_pointer opened_once
    = (Normal, (fst opened_once)\<lparr>isOpen := False\<rparr>,
       (snd opened_once)\<lparr>console := [''Animation effect '' @ [CHR 0x27] @ ''glow'' @ [CHR 0x27]
          @ '' is not defined.'']\<rparr>)"
proof -
  have h: "lookup_method (''animate'' @ capitalize ''glow'') = None"
    by code_simp
  have o: "isOpen (fst opened_once)" "console (snd opened_once) = []"
    by code_simp+
  show ?thesis
    using h o toggle_unknown_effect [OF h, of scenario_pointer "fst opened_once" "snd opened_once"]
    by (simp add: warning_def)
qed

section \<open>A start event followed quickly by an end event\<close>

lemma run_timer_hide_closed:
  "is_hide cb \<Longrightarrow> \<not> isOpen (fst (tooltip_state d)) \<Longrightarrow> run_timer win effect d cb = d"
  by (cases cb) simp_all

lemma foldl_run_timer_hides:
  "\<forall>cb \<in> set cbs. is_hide cb \<Longrightarrow> \<not> isOpen (fst (tooltip_state d)) \<Longrightarrow>
   foldl (run_timer win effect) d cbs = d"
  by (induction cbs) (simp_all add: run_timer_hide_closed)

lemma step_Elapse_hides:
  assumes "\<forall>t \<in> set (timers d). due t \<le> now d + ms \<longrightarrow> is_hide (action t)"
    and "\<not> isOpen (fst (tooltip_state d))"
  shows "step win effect d (Elapse ms)
    = d\<lparr>timers := filter (\<lambda>t. \<not> due t \<le> now d + ms) (timers d), now := now d + ms\<rparr>"
proof -
  have "\<forall>cb \<in> set (map action (sort_key due (filter (\<lambda>t. due t \<le> now d + ms) (timers d)))). is_hide cb"
    using assms(1) by auto
  then show ?thesis
    using assms(2) by (simp add: Let_def foldl_run_timer_hides)
qed

text \<open>
  C6. When a start event arrives while the tooltip is closed and no show timer is pending,
  and the end event follows less than 40 ms later, no \<^verbatim>\<open>toggle\<close> is invoked and the
  instance and its page stay as they were, however long one waits afterwards: the end event
  cancels the pending show, and the hide timer it sets finds the tooltip closed.
\<close>

theorem quick_start_end_closed:
  assumes closed: "\<not> isOpen (fst (tooltip_state d))"
    and hides: "\<forall>t \<in> set (timers d). is_hide (action t)"
    and quick: "ms < 40"
  shows "tooltip_state (run win effect d [StartEvent e1, Elapse ms, EndEvent e2, Elapse ms'])
      = tooltip_state d
    \<and> toggle_calls (run win effect d [StartEvent e1, Elapse ms, EndEvent e2, Elapse ms'])
      = toggle_calls d"
proof -
  define sh where "sh = \<lparr>handle = next_handle d, due = now d + 40, action = ShowCallback e1\<rparr>"
  define d1 where "d1 = step win effect d (StartEvent e1)"
  have d1: "d1 = d\<lparr>timers := filter (\<lambda>t. Some (handle t) \<noteq> hideTimeout d) (timers d) @ [sh],
                   next_handle := next_handle d + 1, showTimeout := Some (next_handle d)\<rparr>"
    by (simp add: d1_def sh_def setTimeout_def clearTimeout_def)
  have due1: "\<forall>t \<in> set (timers d1). due t \<le> now d1 + ms \<longrightarrow> is_hide (action t)"
    using hides quick by (auto simp: d1 sh_def)
  have closed1: "\<not> isOpen (fst (tooltip_state d1))"
    using closed by (simp add: d1)
  define d2 where "d2 = step win effect d1 (Elapse ms)"
  have d2: "d2 = d1\<lparr>timers := filter (\<lambda>t. \<not> due t \<le> now d1 + ms) (timers d1), now := now d1 + ms\<rparr>"
    unfolding d2_def by (rule step_Elapse_hides [OF due1 closed1])
  have show2: "\<forall>t \<in> set (timers d2). is_hide (action t) \<or> handle t = next_handle d"
    using hides by (auto simp: d2 d1 sh_def)
  define d3 where "d3 = step win effect d2 (EndEvent e2)"
  have st2: "showTimeout d2 = Some (next_handle d)" by (simp add: d2 d1)
  have hides3: "\<forall>t \<in> set (timers d3). is_hide (action t)"
    using show2 by (auto simp: d3_def setTimeout_def clearTimeout_def st2)
  have same3: "tooltip_state d3 = tooltip_state d" "toggle_calls d3 = toggle_calls d"
    by (simp_all add: d3_def setTimeout_def clearTimeout_def d2 d1)
  define d4 where "d4 = step win effect d3 (Elapse ms')"
  have "d4 = d3\<lparr>timers := filter (\<lambda>t. \<not> due t \<le> now d3 + ms') (timers d3), now := now d3 + ms'\<rparr>"
    unfolding d4_def using hides3 closed same3 by (intro step_Elapse_hides) simp_all
  then have "tooltip_state d4 = tooltip_state d" "toggle_calls d4 = toggle_calls d"
    using same3 by simp_all
  moreover have "run win effect d [StartEvent e1, Elapse ms, EndEvent e2, Elapse ms'] = d4"
    by (simp add: run_def d4_def d3_def d2_def d1_def)
  ultimately show ?thesis by simp
qed

theorem quick_start_end_closed_witness:
  "\<not> isOpen (fst (tooltip_state (initial_dispatcher single_cell)))
   \<and> timers (initial_dispatcher single_cell) = []
   \<and> tooltip_state (run scenario_window (Some ''effect2'') (initial_dispatcher single_cell)
        [StartEvent scenario_pointer, Elapse 10, EndEvent scenario_pointer, Elapse 40])
      = single_cell
   \<and> toggle_calls (run scenario_window (Some ''effect2'') (initial_dispatcher single_cell)
        [StartEvent scenario_pointer, Elapse 10, EndEvent scenario_pointer, Elapse 40])
      = 0"
  using quick_start_end_closed [of "initial_dispatcher single_cell" 10 scenario_window
      "Some ''effect2''" scenario_pointer scenario_pointer 40]
  by (simp add: initial_dispatcher_def single_cell_def)

text \<open>With the tooltip open (the pointer left 10 ms ago and comes back), a start event
  followed 10 ms later by an end event does not leave it open: the hide timer of that end
  event fires 40 ms later and calls \<^verbatim>\<open>toggle\<close>.\<close>

theorem quick_start_end_counterexample:
  "isOpen (fst (tooltip_state hovered))
   \<and> \<not> isOpen (fst (tooltip_state (run scenario_window (Some ''effect2'') hovered
        [StartEvent scenario_pointer, Elapse 10, EndEvent scenario_pointer, Elapse 40])))
   \<and> toggle_calls (run scenario_window (Some ''effect2'') hovered
        [StartEvent scenario_pointer, Elapse 10, EndEvent scenario_pointer, Elapse 40])
      = toggle_calls hovered + 1"
  by code_simp

end
